theory Spec2Isabelle
  imports Complex_Main "HOL-Library.Word"
begin

section \<open>mlpack AMF: the average initialization rule\<close>

text \<open>
  A shallow embedding of \<^verbatim>\<open>src/mlpack/methods/amf/init_rules/average_init.hpp\<close>:
  the class \<^verbatim>\<open>AverageInitialization\<close> with its two static member functions
  \<^verbatim>\<open>Initialize\<close> and \<^verbatim>\<open>InitializeOne\<close>. The class has no data member, its
  constructor and \<^verbatim>\<open>serialize\<close> are empty, and both functions are static: there is
  no object state to model.
\<close>

subsection \<open>The type double\<close>

text \<open>
  A C++ \<^verbatim>\<open>double\<close> is a finite number, one of the two infinities, or a NaN. The special
  values follow IEEE 754: a NaN operand gives NaN, \<open>\<infinity> - \<infinity>\<close>, \<open>0 / 0\<close> and
  \<open>\<infinity> / \<infinity>\<close> are NaN, the square root of a negative number is NaN, a non-zero number
  divided by zero is an infinity, and every comparison with a NaN is false.

  Arithmetic on finite values is exact: rounding, overflow of a finite result to an
  infinity and the sign of zero are not modelled (a zero is \<open>+0\<close>; the only divisors of
  the source are converted from \<^verbatim>\<open>size_t\<close>, so they are never \<open>-0\<close>).
\<close>

datatype double = Fin real | PInf | NInf | NaN

fun dneg :: "double \<Rightarrow> double" where
  "dneg (Fin a) = Fin (- a)"
| "dneg PInf = NInf"
| "dneg NInf = PInf"
| "dneg NaN = NaN"

fun dadd :: "double \<Rightarrow> double \<Rightarrow> double" where
  "dadd (Fin a) (Fin b) = Fin (a + b)"
| "dadd (Fin a) PInf = PInf"
| "dadd (Fin a) NInf = NInf"
| "dadd PInf (Fin b) = PInf"
| "dadd PInf PInf = PInf"
| "dadd PInf NInf = NaN"
| "dadd NInf (Fin b) = NInf"
| "dadd NInf NInf = NInf"
| "dadd NInf PInf = NaN"
| "dadd NaN y = NaN"
| "dadd x NaN = NaN"

definition dsub :: "double \<Rightarrow> double \<Rightarrow> double" where
  "dsub x y = dadd x (dneg y)"

fun ddiv :: "double \<Rightarrow> double \<Rightarrow> double" where
  "ddiv (Fin a) (Fin b) =
     (if b = 0 then (if a = 0 then NaN else if 0 < a then PInf else NInf)
      else Fin (a / b))"
| "ddiv (Fin a) PInf = Fin 0"
| "ddiv (Fin a) NInf = Fin 0"
| "ddiv PInf (Fin b) = (if b < 0 then NInf else PInf)"
| "ddiv NInf (Fin b) = (if b < 0 then PInf else NInf)"
| "ddiv PInf PInf = NaN"
| "ddiv PInf NInf = NaN"
| "ddiv NInf PInf = NaN"
| "ddiv NInf NInf = NaN"
| "ddiv NaN y = NaN"
| "ddiv x NaN = NaN"

fun dsqrt :: "double \<Rightarrow> double" where
  "dsqrt (Fin a) = (if a < 0 then NaN else Fin (sqrt a))"
| "dsqrt PInf = PInf"
| "dsqrt NInf = NaN"
| "dsqrt NaN = NaN"

text \<open>The comparison \<^verbatim>\<open>x < y\<close> of two doubles.\<close>

fun dless :: "double \<Rightarrow> double \<Rightarrow> bool" where
  "dless (Fin a) (Fin b) = (a < b)"
| "dless (Fin a) PInf = True"
| "dless (Fin a) NInf = False"
| "dless PInf y = False"
| "dless NInf (Fin b) = True"
| "dless NInf PInf = True"
| "dless NInf NInf = False"
| "dless NInf NaN = False"
| "dless NaN y = False"
| "dless x NaN = False"

text \<open>The comparison \<^verbatim>\<open>x <= y\<close>, used to state the bounds on the entries.\<close>

fun dle :: "double \<Rightarrow> double \<Rightarrow> bool" where
  "dle (Fin a) (Fin b) = (a \<le> b)"
| "dle (Fin a) PInf = True"
| "dle (Fin a) NInf = False"
| "dle PInf PInf = True"
| "dle PInf (Fin b) = False"
| "dle PInf NInf = False"
| "dle PInf NaN = False"
| "dle NInf (Fin b) = True"
| "dle NInf PInf = True"
| "dle NInf NInf = True"
| "dle NInf NaN = False"
| "dle NaN y = False"
| "dle x NaN = False"

text \<open>
  \<^verbatim>\<open>DBL_MAX\<close> of \<^verbatim>\<open><cfloat>\<close>, the largest finite double: 53 one bits at the
  largest exponent, \<^verbatim>\<open>(2^53 - 1) * 2^971\<close>, about \<^verbatim>\<open>1.7977e308\<close>.
\<close>

definition DBL_MAX :: double where
  "DBL_MAX = Fin ((2 ^ 53 - 1) * 2 ^ 971)"

subsection \<open>Sizes\<close>

text \<open>
  \<^verbatim>\<open>size_t\<close> (and Armadillo's \<^verbatim>\<open>uword\<close>) on the 64-bit targets: products wrap around.
  A \<^verbatim>\<open>size_t\<close> operand of a double division is converted to double first.
\<close>

type_synonym size_t = "64 word"

definition of_size :: "size_t \<Rightarrow> double" where
  "of_size k = Fin (real (unat k))"

subsection \<open>Matrices, the random source and the signals\<close>

text \<open>
  The template parameter \<^verbatim>\<open>MatType\<close> is Armadillo's dense \<^verbatim>\<open>arma::mat\<close> or sparse
  \<^verbatim>\<open>arma::sp_mat\<close>; the outputs are \<^verbatim>\<open>arma::mat\<close>. The source reads of a matrix its
  \<^verbatim>\<open>n_rows\<close>, its \<^verbatim>\<open>n_cols\<close> and the values that the \<^verbatim>\<open>const_row_col_iterator\<close>
  yields from \<^verbatim>\<open>begin()\<close> to \<^verbatim>\<open>end()\<close>: every entry of a dense matrix, only the stored
  non-zero entries of a sparse one. \<open>elems\<close> is that sequence, in iteration order.
\<close>

record matrix =
  n_rows :: size_t
  n_cols :: size_t
  elems :: "double list"

text \<open>
  The random source behind \<^verbatim>\<open>randu\<close> is global state of Armadillo: the sequence of
  its future samples and how many have been consumed.
\<close>

record rng =
  draws :: "nat \<Rightarrow> real"
  pos :: nat

text \<open>A source that returns the same sample forever, for concrete runs.\<close>

definition const_draws :: "real \<Rightarrow> nat \<Rightarrow> real" where
  "const_draws c i = c"

text \<open>The samples are in \<open>[0, 1)\<close>: the assumption of the spec on the random source.\<close>

definition unit_draws :: "rng \<Rightarrow> bool" where
  "unit_draws g \<longleftrightarrow> (\<forall>i. 0 \<le> draws g i \<and> draws g i < 1)"

text \<open>
  Modelled from the spec: Armadillo's \<^verbatim>\<open>M.randu(rows, cols)\<close>, which is not part of the
  source file (spec 6: in-place uniform-random fill of a given shape). It resizes \<open>M\<close>
  to \<open>rows \<times> cols\<close> whatever \<open>M\<close> held before and fills every entry with the next
  sample. The allocation is taken to succeed.
\<close>

definition randu :: "size_t \<Rightarrow> size_t \<Rightarrow> rng \<Rightarrow> matrix \<times> rng" where
  "randu rows cols g =
     (let k = unat rows * unat cols
      in (\<lparr>n_rows = rows, n_cols = cols,
            elems = map (\<lambda>i. Fin (draws g (pos g + i))) [0..<k]\<rparr>,
          g\<lparr>pos := pos g + k\<rparr>))"

text \<open>
  Modelled from the spec: Armadillo's \<^verbatim>\<open>M + s\<close> for a scalar \<open>s\<close> (spec 6: elementwise
  scalar addition).
\<close>

definition mat_plus :: "matrix \<Rightarrow> double \<Rightarrow> matrix" where
  "mat_plus M s = M\<lparr>elems := map (\<lambda>x. dadd x s) (elems M)\<rparr>"

text \<open>
  Modelled from the spec: \<^verbatim>\<open>Log::Fatal\<close>, the stream of mlpack that line 148 writes to, is
  declared outside the source file; the spec (4.1, 7) describes the write as a fatal log
  that ends the call without a result. \<open>Fatal\<close> is that signal, with the text written.
  It is the one signal of the source. \<open>InvalidInput\<close> and \<open>InvalidArgument\<close> are the
  errors of the spec's taxonomy (spec 7); no statement of the source raises them.
\<close>

datatype error = InvalidInput | InvalidArgument | Fatal string

text \<open>
  Modelled from the spec: what a signal does to the host process, which for \<^verbatim>\<open>Log::Fatal\<close>
  is decided outside the source file. In the words of the spec the write is the
  "fatal-log-and-abort behavior" (4.1) that "fatal-aborted the process" (7), while the
  errors of its taxonomy are "returned/signaled directly to the immediate caller", which
  decides what to do (7).
\<close>

fun aborts_process :: "error \<Rightarrow> bool" where
  "aborts_process (Fatal msg) = True"
| "aborts_process InvalidInput = False"
| "aborts_process InvalidArgument = False"

subsection \<open>Initialize\<close>

text \<open>
  The loop of lines 57 to 65 over the stored elements, on the locals \<^verbatim>\<open>count\<close>,
  \<^verbatim>\<open>avgV\<close> and \<^verbatim>\<open>min\<close> (here \<open>minV\<close>).
\<close>

fun Initialize_loop :: "double list \<Rightarrow> size_t \<times> double \<times> double \<Rightarrow> size_t \<times> double \<times> double" where
  "Initialize_loop [] (count, avgV, minV) = (count, avgV, minV)"
| "Initialize_loop (it # rest) (count, avgV, minV) =
     Initialize_loop rest
       (count + 1, dadd avgV it, if dless it minV then it else minV)"

text \<open>
  Lines 48 to 67: the value of the local \<^verbatim>\<open>avgV\<close> after line 67, the seed. It is read
  from \<open>V\<close> and \<open>r\<close> only.
\<close>

definition Initialize_avgV :: "matrix \<Rightarrow> size_t \<Rightarrow> double" where
  "Initialize_avgV V r =
     (let n = n_rows V;
          m = n_cols V;
          (count, avgV, minV) = Initialize_loop (elems V) (0, Fin 0, DBL_MAX)
      in dsqrt (ddiv (dsub (ddiv avgV (of_size (n * m))) minV) (of_size r)))"

text \<open>
  \<^verbatim>\<open>Initialize(V, r, W, H)\<close> called with \<open>V\<close>, \<open>W\<close> and \<open>H\<close> three different objects:
  the function returns what it leaves in \<open>W\<close> and \<open>H\<close>, and the state of the random
  source. The source has no failing path, so the result is always \<open>Inr\<close>.
\<close>

definition Initialize :: "matrix \<Rightarrow> size_t \<Rightarrow> rng \<Rightarrow> error + matrix \<times> matrix \<times> rng" where
  "Initialize V r g =
     (let n = n_rows V;
          m = n_cols V;
          avgV = Initialize_avgV V r;
          (W, g) = randu n r g;
          (H, g) = randu r m g;
          W = mat_plus W avgV;
          H = mat_plus H avgV
      in Inr (W, H, g))"

subsection \<open>InitializeOne\<close>

text \<open>
  The source repeats the loop and the seed in each of the two branches: lines 98 to 114
  and lines 123 to 139.
\<close>

fun InitializeOne_W_loop :: "double list \<Rightarrow> size_t \<times> double \<times> double \<Rightarrow> size_t \<times> double \<times> double" where
  "InitializeOne_W_loop [] (count, avgV, minV) = (count, avgV, minV)"
| "InitializeOne_W_loop (it # rest) (count, avgV, minV) =
     InitializeOne_W_loop rest
       (count + 1, dadd avgV it, if dless it minV then it else minV)"

definition InitializeOne_W_avgV :: "matrix \<Rightarrow> size_t \<Rightarrow> double" where
  "InitializeOne_W_avgV V r =
     (let n = n_rows V;
          m = n_cols V;
          (count, avgV, minV) = InitializeOne_W_loop (elems V) (0, Fin 0, DBL_MAX)
      in dsqrt (ddiv (dsub (ddiv avgV (of_size (n * m))) minV) (of_size r)))"

fun InitializeOne_H_loop :: "double list \<Rightarrow> size_t \<times> double \<times> double \<Rightarrow> size_t \<times> double \<times> double" where
  "InitializeOne_H_loop [] (count, avgV, minV) = (count, avgV, minV)"
| "InitializeOne_H_loop (it # rest) (count, avgV, minV) =
     InitializeOne_H_loop rest
       (count + 1, dadd avgV it, if dless it minV then it else minV)"

definition InitializeOne_H_avgV :: "matrix \<Rightarrow> size_t \<Rightarrow> double" where
  "InitializeOne_H_avgV V r =
     (let n = n_rows V;
          m = n_cols V;
          (count, avgV, minV) = InitializeOne_H_loop (elems V) (0, Fin 0, DBL_MAX)
      in dsqrt (ddiv (dsub (ddiv avgV (of_size (n * m))) minV) (of_size r)))"

text \<open>The text written to \<^verbatim>\<open>Log::Fatal\<close> at lines 148 and 149.\<close>

definition fatal_message :: string where
  "fatal_message = ''Specify either 'H' or 'W' when initializing one of W and H matrices!''"

text \<open>
  \<^verbatim>\<open>InitializeOne(V, r, whichMatrix, M)\<close> called with \<open>V\<close> and \<open>M\<close> two different
  objects. In the last branch nothing is written to \<open>M\<close> and nothing is drawn.
\<close>

definition InitializeOne :: "matrix \<Rightarrow> size_t \<Rightarrow> char \<Rightarrow> rng \<Rightarrow> error + matrix \<times> rng" where
  "InitializeOne V r whichMatrix g =
     (let n = n_rows V;
          m = n_cols V
      in if whichMatrix = CHR ''W'' \<or> whichMatrix = CHR ''w'' then
           (let avgV = InitializeOne_W_avgV V r;
                (M, g) = randu n r g;
                M = mat_plus M avgV
            in Inr (M, g))
         else if whichMatrix = CHR ''H'' \<or> whichMatrix = CHR ''h'' then
           (let avgV = InitializeOne_H_avgV V r;
                (M, g) = randu r m g;
                M = mat_plus M avgV
            in Inr (M, g))
         else Inl (Fatal fatal_message))"

subsection \<open>The calls on a store of matrix objects\<close>

text \<open>
  \<open>V\<close> is passed as \<^verbatim>\<open>const MatType&\<close> and the outputs as \<^verbatim>\<open>arma::mat&\<close>: the function
  works on the caller's objects, and when \<^verbatim>\<open>MatType\<close> is \<^verbatim>\<open>arma::mat\<close> nothing keeps two
  of the references from naming one object. A store maps the address of an object to its
  value; each statement of the source that writes a matrix updates the store at the
  address of that reference, in the order of the source. The seed is read from the
  object of \<open>V\<close> before the first write. A signal of \<open>InitializeOne_ref\<close> comes with the
  store and the random source as they are when it is raised.
\<close>

type_synonym store = "nat \<Rightarrow> matrix"

definition Initialize_ref ::
  "nat \<Rightarrow> size_t \<Rightarrow> nat \<Rightarrow> nat \<Rightarrow> store \<Rightarrow> rng \<Rightarrow> error + store \<times> rng" where
  "Initialize_ref V r W H s g =
     (let n = n_rows (s V);
          m = n_cols (s V);
          avgV = Initialize_avgV (s V) r;
          (M, g) = randu n r g;
          s = s(W := M);
          (M, g) = randu r m g;
          s = s(H := M);
          s = s(W := mat_plus (s W) avgV);
          s = s(H := mat_plus (s H) avgV)
      in Inr (s, g))"

definition InitializeOne_ref ::
  "nat \<Rightarrow> size_t \<Rightarrow> char \<Rightarrow> nat \<Rightarrow> store \<Rightarrow> rng \<Rightarrow>
     error \<times> store \<times> rng + store \<times> rng" where
  "InitializeOne_ref V r whichMatrix M s g =
     (let n = n_rows (s V);
          m = n_cols (s V)
      in if whichMatrix = CHR ''W'' \<or> whichMatrix = CHR ''w'' then
           (let avgV = InitializeOne_W_avgV (s V) r;
                (R, g) = randu n r g;
                s = s(M := R);
                s = s(M := mat_plus (s M) avgV)
            in Inr (s, g))
         else if whichMatrix = CHR ''H'' \<or> whichMatrix = CHR ''h'' then
           (let avgV = InitializeOne_H_avgV (s V) r;
                (R, g) = randu r m g;
                s = s(M := R);
                s = s(M := mat_plus (s M) avgV)
            in Inr (s, g))
         else Inl (Fatal fatal_message, s, g))"

text \<open>
  The object at address \<open>a\<close> once a call has returned; \<open>None\<close> when the call signalled.
  \<open>const_store M\<close> holds \<open>M\<close> at every address.
\<close>

definition obj_after :: "nat \<Rightarrow> error + store \<times> rng \<Rightarrow> matrix option" where
  "obj_after a res = (case res of Inl e \<Rightarrow> None | Inr (s, g) \<Rightarrow> Some (s a))"

definition const_store :: "matrix \<Rightarrow> store" where
  "const_store M a = M"

subsection \<open>The statistics in the words of the spec\<close>

text \<open>
  Spec 4.1, steps 1 to 3: \<open>sum\<close> is the running total of the stored values, \<open>min\<close> the
  least value seen, started at the largest representable value; \<open>mean = sum / (n * m)\<close>;
  \<open>seed = sqrt ((mean - min) / r)\<close>. The product \<open>n * m\<close> is the one of \<^verbatim>\<open>size_t\<close>.
\<close>

definition spec_sum :: "matrix \<Rightarrow> double" where
  "spec_sum V = foldl dadd (Fin 0) (elems V)"

definition spec_min :: "matrix \<Rightarrow> double" where
  "spec_min V = foldl (\<lambda>low x. if dless x low then x else low) DBL_MAX (elems V)"

definition spec_mean :: "matrix \<Rightarrow> double" where
  "spec_mean V = ddiv (spec_sum V) (of_size (n_rows V * n_cols V))"

definition spec_radicand :: "matrix \<Rightarrow> size_t \<Rightarrow> double" where
  "spec_radicand V r = ddiv (dsub (spec_mean V) (spec_min V)) (of_size r)"

definition spec_seed :: "matrix \<Rightarrow> size_t \<Rightarrow> double" where
  "spec_seed V r = dsqrt (spec_radicand V r)"

text \<open>Spec 7 and 8: the seed with the radicand clamped, \<open>sqrt (max (0, (mean - min) / r))\<close>.\<close>

definition dmax :: "double \<Rightarrow> double \<Rightarrow> double" where
  "dmax x y = (if dless x y then y else x)"

definition spec_seed_clamped :: "matrix \<Rightarrow> size_t \<Rightarrow> double" where
  "spec_seed_clamped V r = dsqrt (dmax (Fin 0) (spec_radicand V r))"

text \<open>An entry \<open>x\<close> lies in the half-open interval \<open>[s, s + 1)\<close>.\<close>

definition in_unit_above :: "double \<Rightarrow> double \<Rightarrow> bool" where
  "in_unit_above s x \<longleftrightarrow> dle s x \<and> dless x (dadd s (Fin 1))"

text \<open>An entry \<open>x\<close> lies in the closed interval \<open>[s, s + 1]\<close>, the bound a double sum.\<close>

definition in_closed_unit_above :: "double \<Rightarrow> double \<Rightarrow> bool" where
  "in_closed_unit_above s x \<longleftrightarrow> dle s x \<and> dle x (dadd s (Fin 1))"

text \<open>A matrix has the shape \<open>rows \<times> cols\<close>, with an entry at every position.\<close>

definition has_shape :: "matrix \<Rightarrow> size_t \<Rightarrow> size_t \<Rightarrow> bool" where
  "has_shape M rows cols \<longleftrightarrow>
     n_rows M = rows \<and> n_cols M = cols \<and> length (elems M) = unat rows * unat cols"

text \<open>
  What \<^verbatim>\<open>M.randu(rows, cols)\<close> followed by \<^verbatim>\<open>M = M + s\<close> leaves in \<open>M\<close>: the matrix
  \<open>rows \<times> cols\<close> whose \<open>i\<close>-th entry is the \<open>i\<close>-th next sample plus \<open>s\<close>. \<open>advance k\<close>
  is the random source after \<open>k\<close> samples.
\<close>

definition drawn :: "size_t \<Rightarrow> size_t \<Rightarrow> double \<Rightarrow> rng \<Rightarrow> matrix" where
  "drawn rows cols s g =
     \<lparr>n_rows = rows, n_cols = cols,
      elems = map (\<lambda>i. dadd (Fin (draws g (pos g + i))) s) [0..<unat rows * unat cols]\<rparr>"

definition advance :: "nat \<Rightarrow> rng \<Rightarrow> rng" where
  "advance k g = g\<lparr>pos := pos g + k\<rparr>"

subsection \<open>Concrete inputs\<close>

text \<open>
  The two scenarios of spec 8: the dense matrix with rows \<open>(0, 2)\<close> and \<open>(4, 6)\<close>, read
  column by column, and the sparse \<open>3 \<times> 3\<close> matrix whose one stored value is 5. The
  random source \<open>half_rng\<close> returns the sample \<open>1/2\<close> forever.
\<close>

definition scenario_dense :: matrix where
  "scenario_dense = \<lparr>n_rows = 2, n_cols = 2, elems = [Fin 0, Fin 4, Fin 2, Fin 6]\<rparr>"

definition scenario_sparse :: matrix where
  "scenario_sparse = \<lparr>n_rows = 3, n_cols = 3, elems = [Fin 5]\<rparr>"

text \<open>A dense \<open>1 \<times> 2\<close> matrix with an infinite entry.\<close>

definition dense_with_inf :: matrix where
  "dense_with_inf = \<lparr>n_rows = 1, n_cols = 2, elems = [Fin 0, PInf]\<rparr>"

definition half_rng :: rng where
  "half_rng = \<lparr>draws = const_draws (1 / 2), pos = 0\<rparr>"

section \<open>Properties\<close>

subsection \<open>The loops and the seed\<close>

lemma DBL_MAX_Fin: "\<exists>d. DBL_MAX = Fin d \<and> 0 < d"
  by (simp add: DBL_MAX_def)

lemma Initialize_loop_fold:
  "Initialize_loop xs (c, a, l) =
     (c + of_nat (length xs), foldl dadd a xs,
      foldl (\<lambda>low x. if dless x low then x else low) l xs)"
  by (induction xs arbitrary: c a l) simp_all

lemma InitializeOne_W_loop_fold:
  "InitializeOne_W_loop xs (c, a, l) =
     (c + of_nat (length xs), foldl dadd a xs,
      foldl (\<lambda>low x. if dless x low then x else low) l xs)"
  by (induction xs arbitrary: c a l) simp_all

lemma InitializeOne_H_loop_fold:
  "InitializeOne_H_loop xs (c, a, l) =
     (c + of_nat (length xs), foldl dadd a xs,
      foldl (\<lambda>low x. if dless x low then x else low) l xs)"
  by (induction xs arbitrary: c a l) simp_all

lemma Initialize_avgV_spec: "Initialize_avgV V r = spec_seed V r"
  by (simp add: Initialize_avgV_def Initialize_loop_fold spec_seed_def spec_radicand_def
      spec_mean_def spec_sum_def spec_min_def)

lemma InitializeOne_W_avgV_spec: "InitializeOne_W_avgV V r = spec_seed V r"
  by (simp add: InitializeOne_W_avgV_def InitializeOne_W_loop_fold spec_seed_def
      spec_radicand_def spec_mean_def spec_sum_def spec_min_def)

lemma InitializeOne_H_avgV_spec: "InitializeOne_H_avgV V r = spec_seed V r"
  by (simp add: InitializeOne_H_avgV_def InitializeOne_H_loop_fold spec_seed_def
      spec_radicand_def spec_mean_def spec_sum_def spec_min_def)

text \<open>
  C1. For every matrix \<open>V\<close> and every rank \<open>r\<close>, the seed that \<^verbatim>\<open>Initialize\<close> computes, and
  the one each branch of \<^verbatim>\<open>InitializeOne\<close> computes, is \<open>sqrt ((mean - min) / r)\<close>: \<open>sum\<close>
  and \<open>min\<close> are accumulated in one pass over the stored elements, \<open>min\<close> from
  \<^verbatim>\<open>DBL_MAX\<close>, and \<open>mean\<close> is \<open>sum\<close> divided by \<open>n * m\<close>. For a matrix that Armadillo can
  hold, whose \<open>n * m\<close> fits \<^verbatim>\<open>size_t\<close>, that divisor is the full matrix size, not the
  number of stored elements.
\<close>

theorem seed_is_root_of_mean_minus_min_over_rank:
  "Initialize_avgV V r = dsqrt (ddiv (dsub (spec_mean V) (spec_min V)) (of_size r)) \<and>
   InitializeOne_W_avgV V r = dsqrt (ddiv (dsub (spec_mean V) (spec_min V)) (of_size r)) \<and>
   InitializeOne_H_avgV V r = dsqrt (ddiv (dsub (spec_mean V) (spec_min V)) (of_size r)) \<and>
   (unat (n_rows V) * unat (n_cols V) < 2 ^ 64 \<longrightarrow>
      spec_mean V = ddiv (spec_sum V) (Fin (real (unat (n_rows V)) * real (unat (n_cols V)))))"
proof -
  have "unat (n_rows V * n_cols V) = unat (n_rows V) * unat (n_cols V)"
    if "unat (n_rows V) * unat (n_cols V) < 2 ^ 64"
    using that by (simp add: unat_word_ariths)
  then show ?thesis
    by (simp add: Initialize_avgV_spec InitializeOne_W_avgV_spec InitializeOne_H_avgV_spec
        spec_seed_def spec_radicand_def spec_mean_def of_size_def)
qed

text \<open>
  The two scenarios of spec 8. Sparse, with \<open>r = 1\<close>: one stored value, yet the mean is
  \<open>5 / 9\<close>. Dense, with \<open>r = 2\<close>: the mean is 3, the minimum 0 and the seed \<open>sqrt (3 / 2)\<close>.
\<close>

theorem seed_is_root_of_mean_minus_min_over_rank_witness:
  "unat (n_rows scenario_sparse) * unat (n_cols scenario_sparse) < 2 ^ 64 \<and>
   spec_mean scenario_sparse = Fin (5 / 9) \<and>
   spec_min scenario_sparse = Fin 5 \<and>
   Initialize_avgV scenario_sparse 1 = dsqrt (ddiv (dsub (Fin (5 / 9)) (Fin 5)) (of_size 1)) \<and>
   unat (n_rows scenario_dense) * unat (n_cols scenario_dense) < 2 ^ 64 \<and>
   spec_mean scenario_dense = Fin 3 \<and>
   spec_min scenario_dense = Fin 0 \<and>
   Initialize_avgV scenario_dense 2 = Fin (sqrt (3 / 2)) \<and>
   InitializeOne_W_avgV scenario_dense 2 = Fin (sqrt (3 / 2)) \<and>
   InitializeOne_H_avgV scenario_dense 2 = Fin (sqrt (3 / 2))"
  using seed_is_root_of_mean_minus_min_over_rank [of scenario_sparse 1]
    seed_is_root_of_mean_minus_min_over_rank [of scenario_dense 2]
  by (simp add: scenario_sparse_def scenario_dense_def spec_sum_def spec_min_def DBL_MAX_def
      dsub_def of_size_def)

subsection \<open>What the calls return\<close>

lemma Initialize_drawn:
  "Initialize V r g =
     Inr (drawn (n_rows V) r (Initialize_avgV V r) g,
          drawn r (n_cols V) (Initialize_avgV V r) (advance (unat (n_rows V) * unat r) g),
          advance (unat r * unat (n_cols V)) (advance (unat (n_rows V) * unat r) g))"
  by (simp add: Initialize_def randu_def mat_plus_def drawn_def advance_def Let_def comp_def)

lemma InitializeOne_W_drawn:
  "c = CHR ''W'' \<or> c = CHR ''w'' \<Longrightarrow>
   InitializeOne V r c g =
     Inr (drawn (n_rows V) r (InitializeOne_W_avgV V r) g, advance (unat (n_rows V) * unat r) g)"
  by (simp add: InitializeOne_def randu_def mat_plus_def drawn_def advance_def Let_def comp_def)

lemma InitializeOne_H_drawn:
  "c = CHR ''H'' \<or> c = CHR ''h'' \<Longrightarrow>
   InitializeOne V r c g =
     Inr (drawn r (n_cols V) (InitializeOne_H_avgV V r) g, advance (unat r * unat (n_cols V)) g)"
  by (auto simp add: InitializeOne_def randu_def mat_plus_def drawn_def advance_def Let_def
      comp_def)

lemma dadd_NaN_right: "dadd x NaN = NaN"
  by (cases x) simp_all

lemma drawn_NaN:
  "drawn rows cols NaN g =
     \<lparr>n_rows = rows, n_cols = cols, elems = replicate (unat rows * unat cols) NaN\<rparr>"
  by (simp add: drawn_def dadd_NaN_right map_replicate_const)

lemma drawn_empty:
  "unat rows * unat cols = 0 \<Longrightarrow>
   drawn rows cols s g = \<lparr>n_rows = rows, n_cols = cols, elems = []\<rparr>"
  by (simp add: drawn_def)

lemma has_shape_drawn: "has_shape (drawn rows cols s g) rows cols"
  by (simp add: has_shape_def drawn_def)

lemma dsqrt_negative: "dless x (Fin 0) \<Longrightarrow> dsqrt x = NaN"
  by (cases x) simp_all

subsection \<open>The entries of the outputs\<close>

text \<open>
  Two facts on the sum of a sample and a seed that is not NaN: a sample that is not
  negative does not take the sum below the seed, and a sample below 1 does not take it
  above the sum of the seed and 1. A rounded sum keeps both, since rounding is monotone
  and adding 0 changes nothing.
\<close>

lemma sample_plus_seed_lower: "0 \<le> u \<Longrightarrow> s \<noteq> NaN \<Longrightarrow> dle s (dadd (Fin u) s)"
  by (cases s) simp_all

lemma sample_plus_seed_upper:
  "u < 1 \<Longrightarrow> s \<noteq> NaN \<Longrightarrow> dle (dadd (Fin u) s) (dadd s (Fin 1))"
  by (cases s) simp_all

lemma drawn_in_closed_unit_above:
  assumes "unit_draws g" and "s \<noteq> NaN" and "x \<in> set (elems (drawn rows cols s g))"
  shows "in_closed_unit_above s x"
proof -
  from assms(3) obtain i where x: "x = dadd (Fin (draws g (pos g + i))) s"
    by (auto simp add: drawn_def)
  have "0 \<le> draws g (pos g + i)" and "draws g (pos g + i) < 1"
    using assms(1) by (simp_all add: unit_draws_def)
  with assms(2) show ?thesis
    unfolding in_closed_unit_above_def x
    by (simp add: sample_plus_seed_lower sample_plus_seed_upper)
qed

lemma clamp_keeps_seed: "dsqrt x \<noteq> NaN \<Longrightarrow> dsqrt (dmax (Fin 0) x) = dsqrt x"
  by (cases x) (auto simp add: dmax_def split: if_splits)

text \<open>
  C2, as the code has it. For every \<open>V\<close> with \<open>n \<ge> 1\<close> rows and \<open>m \<ge> 1\<close> columns and every
  \<open>r \<ge> 1\<close> for which the seed \<open>sqrt ((mean - min) / r)\<close> that the code computes is not NaN,
  and samples in \<open>[0, 1)\<close>, \<^verbatim>\<open>Initialize\<close> returns \<open>W\<close> of shape \<open>n \<times> r\<close> and \<open>H\<close> of shape
  \<open>r \<times> m\<close> whose entries all lie in the closed interval \<open>[seed, seed + 1]\<close>. That seed is
  then also \<open>sqrt (max (0, (mean - min) / r))\<close>.
\<close>

theorem entries_within_one_above_seed:
  assumes "1 \<le> n_rows V" and "1 \<le> n_cols V" and "1 \<le> r"
    and "unit_draws g"
    and "Initialize_avgV V r \<noteq> NaN"
  shows "\<exists>W H g'. Initialize V r g = Inr (W, H, g') \<and>
           has_shape W (n_rows V) r \<and> has_shape H r (n_cols V) \<and>
           (\<forall>x \<in> set (elems W). in_closed_unit_above (Initialize_avgV V r) x) \<and>
           (\<forall>x \<in> set (elems H). in_closed_unit_above (Initialize_avgV V r) x) \<and>
           Initialize_avgV V r = spec_seed V r \<and>
           spec_seed V r = spec_seed_clamped V r"
proof -
  let ?a = "Initialize_avgV V r"
  have unit': "unit_draws (advance k g)" for k
    using assms(4) by (simp add: unit_draws_def advance_def)
  have inW: "\<forall>x \<in> set (elems (drawn (n_rows V) r ?a g)). in_closed_unit_above ?a x"
    using drawn_in_closed_unit_above [OF assms(4,5)] by blast
  have inH: "\<forall>x \<in> set (elems (drawn r (n_cols V) ?a (advance (unat (n_rows V) * unat r) g))).
               in_closed_unit_above ?a x"
    using drawn_in_closed_unit_above [OF unit' assms(5)] by blast
  have "dsqrt (spec_radicand V r) \<noteq> NaN"
    using assms(5) by (simp add: Initialize_avgV_spec spec_seed_def)
  then have clamped: "spec_seed V r = spec_seed_clamped V r"
    by (simp add: spec_seed_def spec_seed_clamped_def clamp_keeps_seed)
  show ?thesis
    using inW inH clamped
    by (simp add: Initialize_drawn has_shape_drawn Initialize_avgV_spec)
qed

text \<open>
  The dense scenario of spec 8 with \<open>r = 2\<close>: the mean is 3, the minimum 0, the seed
  \<open>sqrt (3 / 2)\<close>.
\<close>

theorem entries_within_one_above_seed_witness:
  "1 \<le> n_rows scenario_dense \<and> 1 \<le> n_cols scenario_dense \<and> (1 :: size_t) \<le> 2 \<and>
   unit_draws half_rng \<and>
   Initialize_avgV scenario_dense 2 = Fin (sqrt (3 / 2)) \<and>
   Initialize_avgV scenario_dense 2 \<noteq> NaN \<and>
   (\<exists>W H g'. Initialize scenario_dense 2 half_rng = Inr (W, H, g') \<and>
      has_shape W 2 2 \<and> has_shape H 2 2 \<and>
      list_all (in_closed_unit_above (Fin (sqrt (3 / 2)))) (elems W) \<and>
      list_all (in_closed_unit_above (Fin (sqrt (3 / 2)))) (elems H))"
proof -
  have seed: "Initialize_avgV scenario_dense 2 = Fin (sqrt (3 / 2))"
    by (simp add: Initialize_avgV_def scenario_dense_def DBL_MAX_def of_size_def dsub_def)
  then have num: "Initialize_avgV scenario_dense 2 \<noteq> NaN"
    by simp
  have unit: "unit_draws half_rng"
    by (simp add: unit_draws_def half_rng_def const_draws_def)
  have dims: "1 \<le> n_rows scenario_dense" "1 \<le> n_cols scenario_dense" "(1 :: size_t) \<le> 2"
    by (simp_all add: scenario_dense_def)
  show ?thesis
    using entries_within_one_above_seed [OF dims unit num] unit dims seed
    by (auto simp add: list_all_iff scenario_dense_def)
qed

text \<open>
  C2 as the spec words it, with the clamped seed and the half-open interval, fails twice.
  On a sparse matrix, \<open>2 \<times> 2\<close> with the one stored value 4 and \<open>r = 1\<close>: the mean is 1, the
  minimum 4, the radicand \<open>-3\<close>; the clamped seed would be 0, and every entry of \<open>W\<close> and
  \<open>H\<close> is NaN, which lies in no interval. On the dense matrix with an infinite entry and
  \<open>r = 1\<close>: the sum, the mean and the seed are infinite, clamped or not, and so is every
  entry, which is not below the seed plus 1.
\<close>

theorem clamped_interval_counterexample:
  "(1 :: size_t) \<le> 2 \<and> (1 :: size_t) \<le> 1 \<and> unit_draws half_rng \<and>
   Initialize \<lparr>n_rows = 2, n_cols = 2, elems = [Fin 4]\<rparr> 1 half_rng =
     Inr (\<lparr>n_rows = 2, n_cols = 1, elems = [NaN, NaN]\<rparr>,
          \<lparr>n_rows = 1, n_cols = 2, elems = [NaN, NaN]\<rparr>,
          \<lparr>draws = const_draws (1 / 2), pos = 4\<rparr>) \<and>
   spec_seed_clamped \<lparr>n_rows = 2, n_cols = 2, elems = [Fin 4]\<rparr> 1 = Fin 0 \<and>
   \<not> in_unit_above (Fin 0) NaN \<and>
   Initialize dense_with_inf 1 half_rng =
     Inr (\<lparr>n_rows = 1, n_cols = 1, elems = [PInf]\<rparr>,
          \<lparr>n_rows = 1, n_cols = 2, elems = [PInf, PInf]\<rparr>,
          \<lparr>draws = const_draws (1 / 2), pos = 3\<rparr>) \<and>
   spec_seed_clamped dense_with_inf 1 = PInf \<and>
   \<not> in_unit_above PInf PInf"
  by (simp add: Initialize_def Initialize_avgV_def randu_def mat_plus_def half_rng_def
      const_draws_def unit_draws_def of_size_def dsub_def DBL_MAX_def upt_rec
      spec_seed_clamped_def spec_radicand_def spec_mean_def spec_sum_def spec_min_def
      dmax_def in_unit_above_def dense_with_inf_def)

subsection \<open>A negative radicand\<close>

text \<open>
  C3, as the code has it. For every \<open>V\<close> and \<open>r\<close> for which \<open>(mean - min) / r\<close> evaluates
  negative, the square root is taken of the negative number as it is: the seed is NaN in
  \<^verbatim>\<open>Initialize\<close> and in both branches of \<^verbatim>\<open>InitializeOne\<close>, the call returns normally, and
  every entry of \<open>W\<close> and \<open>H\<close> is NaN. Nothing is clamped and the call signals nothing.
\<close>

theorem negative_radicand_is_not_clamped:
  assumes "dless (spec_radicand V r) (Fin 0)"
  shows "Initialize_avgV V r = NaN \<and>
         InitializeOne_W_avgV V r = NaN \<and>
         InitializeOne_H_avgV V r = NaN \<and>
         Initialize V r g =
           Inr (\<lparr>n_rows = n_rows V, n_cols = r,
                  elems = replicate (unat (n_rows V) * unat r) NaN\<rparr>,
                \<lparr>n_rows = r, n_cols = n_cols V,
                  elems = replicate (unat r * unat (n_cols V)) NaN\<rparr>,
                advance (unat r * unat (n_cols V)) (advance (unat (n_rows V) * unat r) g))"
proof -
  have "spec_seed V r = NaN"
    using assms by (simp add: spec_seed_def dsqrt_negative)
  then show ?thesis
    by (simp add: Initialize_drawn Initialize_avgV_spec InitializeOne_W_avgV_spec
        InitializeOne_H_avgV_spec drawn_NaN)
qed

theorem negative_radicand_is_not_clamped_witness:
  "dless (spec_radicand scenario_sparse 1) (Fin 0) \<and>
   Initialize_avgV scenario_sparse 1 = NaN \<and>
   Initialize scenario_sparse 1 half_rng =
     Inr (\<lparr>n_rows = 3, n_cols = 1, elems = [NaN, NaN, NaN]\<rparr>,
          \<lparr>n_rows = 1, n_cols = 3, elems = [NaN, NaN, NaN]\<rparr>,
          \<lparr>draws = const_draws (1 / 2), pos = 6\<rparr>)"
proof -
  have neg: "dless (spec_radicand scenario_sparse 1) (Fin 0)"
    by (simp add: spec_radicand_def spec_mean_def spec_sum_def spec_min_def
        scenario_sparse_def DBL_MAX_def of_size_def dsub_def)
  have three: "replicate 3 NaN = [NaN, NaN, NaN]"
    by (simp add: numeral_3_eq_3)
  show ?thesis
    using negative_radicand_is_not_clamped [OF neg, of half_rng] neg three
    by (simp add: scenario_sparse_def half_rng_def advance_def)
qed

text \<open>
  C3 as the spec words it fails on its own scenario, the sparse \<open>3 \<times> 3\<close> matrix with the
  one stored value 5 and \<open>r = 1\<close>: the radicand \<open>5 / 9 - 5\<close> is negative, a clamped seed
  would be 0 and \<open>W\<close> would hold the samples \<open>1/2\<close>; the seed is NaN and \<open>W\<close> and \<open>H\<close>
  hold NaN.
\<close>

theorem clamp_and_warning_counterexample:
  "dless (spec_radicand scenario_sparse 1) (Fin 0) \<and>
   spec_seed_clamped scenario_sparse 1 = Fin 0 \<and>
   drawn 3 1 (Fin 0) half_rng =
     \<lparr>n_rows = 3, n_cols = 1, elems = [Fin (1 / 2), Fin (1 / 2), Fin (1 / 2)]\<rparr> \<and>
   Initialize_avgV scenario_sparse 1 = NaN \<and>
   Initialize scenario_sparse 1 half_rng =
     Inr (\<lparr>n_rows = 3, n_cols = 1, elems = [NaN, NaN, NaN]\<rparr>,
          \<lparr>n_rows = 1, n_cols = 3, elems = [NaN, NaN, NaN]\<rparr>,
          \<lparr>draws = const_draws (1 / 2), pos = 6\<rparr>)"
  by (simp add: Initialize_def Initialize_avgV_def randu_def mat_plus_def half_rng_def
      const_draws_def of_size_def dsub_def DBL_MAX_def upt_rec scenario_sparse_def
      spec_seed_clamped_def spec_radicand_def spec_mean_def spec_sum_def spec_min_def
      dmax_def drawn_def)

subsection \<open>A zero dimension, a zero rank\<close>

lemma zero_size_seed:
  assumes "n_rows V = 0 \<or> n_cols V = 0"
    and "length (elems V) \<le> unat (n_rows V) * unat (n_cols V)"
  shows "spec_seed V r = NaN"
proof -
  have "elems V = []"
    using assms by auto
  moreover have "n_rows V * n_cols V = 0"
    using assms(1) by auto
  ultimately show ?thesis
    by (simp add: spec_seed_def spec_radicand_def spec_mean_def spec_sum_def of_size_def
        dsub_def)
qed

text \<open>
  C4, as the code has it. \<^verbatim>\<open>Initialize\<close> checks neither the dimensions of \<open>V\<close> nor \<open>r\<close>. For
  every call where \<open>V\<close> has a zero dimension (and so no stored element) or \<open>r = 0\<close>, it
  signals no error and returns \<open>W\<close> of shape \<open>n \<times> r\<close> and \<open>H\<close> of shape \<open>r \<times> m\<close>; every
  entry they have is NaN. With \<open>r = 0\<close> both are empty.
\<close>

theorem zero_dimension_or_rank_is_not_rejected:
  assumes "n_rows V = 0 \<or> n_cols V = 0 \<or> r = 0"
    and "length (elems V) \<le> unat (n_rows V) * unat (n_cols V)"
  shows "Initialize V r g =
           Inr (\<lparr>n_rows = n_rows V, n_cols = r,
                  elems = replicate (unat (n_rows V) * unat r) NaN\<rparr>,
                \<lparr>n_rows = r, n_cols = n_cols V,
                  elems = replicate (unat r * unat (n_cols V)) NaN\<rparr>,
                advance (unat r * unat (n_cols V)) (advance (unat (n_rows V) * unat r) g))"
proof (cases "r = 0")
  case True
  then show ?thesis
    by (simp add: Initialize_drawn drawn_empty)
next
  case False
  with assms have "spec_seed V r = NaN"
    by (simp add: zero_size_seed)
  then show ?thesis
    by (simp add: Initialize_drawn Initialize_avgV_spec drawn_NaN)
qed

theorem zero_dimension_or_rank_is_not_rejected_witness:
  "(n_rows \<lparr>n_rows = 0, n_cols = 2, elems = []\<rparr> = 0 \<or>
    n_cols \<lparr>n_rows = 0, n_cols = 2, elems = []\<rparr> = 0 \<or> (1 :: size_t) = 0) \<and>
   length (elems \<lparr>n_rows = 0, n_cols = 2, elems = []\<rparr>)
     \<le> unat (0 :: size_t) * unat (2 :: size_t) \<and>
   Initialize \<lparr>n_rows = 0, n_cols = 2, elems = []\<rparr> 1 half_rng =
     Inr (\<lparr>n_rows = 0, n_cols = 1, elems = []\<rparr>,
          \<lparr>n_rows = 1, n_cols = 2, elems = [NaN, NaN]\<rparr>,
          \<lparr>draws = const_draws (1 / 2), pos = 2\<rparr>)"
proof -
  have two: "replicate 2 NaN = [NaN, NaN]"
    by (simp add: numeral_2_eq_2)
  show ?thesis
    using zero_dimension_or_rank_is_not_rejected
      [of "\<lparr>n_rows = 0, n_cols = 2, elems = []\<rparr>" 1 half_rng] two
    by (simp add: half_rng_def advance_def)
qed

text \<open>
  C4 as the spec words it fails: for the \<open>0 \<times> 2\<close> matrix and \<open>r = 1\<close> the call returns,
  with \<open>H\<close> the \<open>1 \<times> 2\<close> matrix of NaN; for the dense scenario and \<open>r = 0\<close> it returns two
  empty matrices. Neither call signals \<open>InvalidInput\<close>.
\<close>

theorem invalid_input_counterexample:
  "Initialize \<lparr>n_rows = 0, n_cols = 2, elems = []\<rparr> 1 half_rng =
     Inr (\<lparr>n_rows = 0, n_cols = 1, elems = []\<rparr>,
          \<lparr>n_rows = 1, n_cols = 2, elems = [NaN, NaN]\<rparr>,
          \<lparr>draws = const_draws (1 / 2), pos = 2\<rparr>) \<and>
   Initialize \<lparr>n_rows = 0, n_cols = 2, elems = []\<rparr> 1 half_rng \<noteq> Inl InvalidInput \<and>
   Initialize scenario_dense 0 half_rng =
     Inr (\<lparr>n_rows = 2, n_cols = 0, elems = []\<rparr>,
          \<lparr>n_rows = 0, n_cols = 2, elems = []\<rparr>,
          \<lparr>draws = const_draws (1 / 2), pos = 0\<rparr>) \<and>
   Initialize scenario_dense 0 half_rng \<noteq> Inl InvalidInput"
  by (simp add: Initialize_def Initialize_avgV_def randu_def mat_plus_def half_rng_def
      const_draws_def of_size_def dsub_def DBL_MAX_def upt_rec scenario_dense_def)

subsection \<open>The selector of InitializeOne\<close>

text \<open>
  C5, as the code has it. For every value of \<^verbatim>\<open>whichMatrix\<close> other than \<open>W\<close>, \<open>w\<close>, \<open>H\<close> and
  \<open>h\<close>, \<^verbatim>\<open>InitializeOne\<close> writes its message to the fatal log \<^verbatim>\<open>Log::Fatal\<close>, which as the
  spec describes it aborts the process: no recoverable \<open>InvalidArgument\<close> reaches the
  caller. No matrix is returned, every object of the store and \<open>M\<close> among them is as it
  was, and no sample is drawn. The four selectors are the only ones that get a matrix.
\<close>

theorem unknown_selector_writes_fatal_log:
  assumes "whichMatrix \<noteq> CHR ''W''" and "whichMatrix \<noteq> CHR ''w''"
    and "whichMatrix \<noteq> CHR ''H''" and "whichMatrix \<noteq> CHR ''h''"
  shows "InitializeOne_ref Vp r whichMatrix Mp s g = Inl (Fatal fatal_message, s, g) \<and>
         InitializeOne V r whichMatrix g = Inl (Fatal fatal_message) \<and>
         aborts_process (Fatal fatal_message) \<and>
         \<not> aborts_process InvalidArgument \<and>
         (c = CHR ''W'' \<or> c = CHR ''w'' \<or> c = CHR ''H'' \<or> c = CHR ''h'' \<longrightarrow>
            (\<exists>s' g'. InitializeOne_ref Vp r c Mp s g = Inr (s', g')) \<and>
            (\<exists>M g'. InitializeOne V r c g = Inr (M, g')))"
  using assms by (auto simp add: InitializeOne_def InitializeOne_ref_def Let_def split_beta)

text \<open>
  The selector \<open>X\<close>, with the dense scenario as \<open>V\<close> at address 0 and the sparse one as
  \<open>M\<close> at address 1: the store and the random source come back as they were.
\<close>

theorem unknown_selector_writes_fatal_log_witness:
  "CHR ''X'' \<noteq> CHR ''W'' \<and> CHR ''X'' \<noteq> CHR ''w'' \<and> CHR ''X'' \<noteq> CHR ''H'' \<and>
   CHR ''X'' \<noteq> CHR ''h'' \<and>
   InitializeOne_ref 0 2 (CHR ''X'') 1 ((const_store scenario_dense)(1 := scenario_sparse))
       half_rng =
     Inl (Fatal fatal_message, (const_store scenario_dense)(1 := scenario_sparse), half_rng) \<and>
   InitializeOne scenario_dense 2 (CHR ''X'') half_rng = Inl (Fatal fatal_message) \<and>
   aborts_process (Fatal fatal_message)"
  using unknown_selector_writes_fatal_log
    [of "CHR ''X''" 0 2 1 "(const_store scenario_dense)(1 := scenario_sparse)" half_rng
      scenario_dense]
  by simp

text \<open>
  C5 as the spec words it fails at the selector \<open>X\<close> of its own example: what the call
  signals is the fatal log with its message, which aborts the process, and not the
  recoverable \<open>InvalidArgument\<close>.
\<close>

theorem invalid_argument_counterexample:
  "InitializeOne scenario_dense 2 (CHR ''X'') half_rng =
     Inl (Fatal ''Specify either 'H' or 'W' when initializing one of W and H matrices!'') \<and>
   aborts_process
     (Fatal ''Specify either 'H' or 'W' when initializing one of W and H matrices!'') \<and>
   \<not> aborts_process InvalidArgument \<and>
   InitializeOne scenario_dense 2 (CHR ''X'') half_rng \<noteq> Inl InvalidArgument"
  by (simp add: InitializeOne_def fatal_message_def)

subsection \<open>One seed for both entry points\<close>

text \<open>
  C6. For every \<open>V\<close> and \<open>r\<close>, \<^verbatim>\<open>InitializeOne\<close> with the selector \<open>W\<close> computes, with a loop
  of its own over \<open>V\<close>, the same seed as \<^verbatim>\<open>Initialize\<close>, and its matrix has the shape
  \<open>n \<times> r\<close> of the \<open>W\<close> half of \<^verbatim>\<open>Initialize\<close>: each is the next \<open>n * r\<close> samples of the
  random source it is given, plus that seed. From the same state of the random source
  the two matrices are equal.
\<close>

theorem InitializeOne_W_agrees_with_Initialize:
  "InitializeOne_W_avgV V r = Initialize_avgV V r \<and>
   (\<exists>H g2. Initialize V r g =
      Inr (drawn (n_rows V) r (Initialize_avgV V r) g, H, g2)) \<and>
   (\<exists>g1. InitializeOne V r (CHR ''W'') g' =
      Inr (drawn (n_rows V) r (Initialize_avgV V r) g', g1)) \<and>
   has_shape (drawn (n_rows V) r (Initialize_avgV V r) g) (n_rows V) r \<and>
   has_shape (drawn (n_rows V) r (Initialize_avgV V r) g') (n_rows V) r"
  by (simp add: Initialize_drawn InitializeOne_W_drawn Initialize_avgV_spec
      InitializeOne_W_avgV_spec has_shape_drawn)

text \<open>
  C7. For every \<open>V\<close> and \<open>r\<close>, \<^verbatim>\<open>InitializeOne\<close> does the same with the selector \<open>w\<close> as
  with \<open>W\<close>, and the same with \<open>h\<close> as with \<open>H\<close>: from one state of the random source the
  results are equal, and from two states they have the same shape and the same seed.
\<close>

theorem selector_ignores_case:
  "InitializeOne V r (CHR ''w'') g = InitializeOne V r (CHR ''W'') g \<and>
   InitializeOne V r (CHR ''h'') g = InitializeOne V r (CHR ''H'') g \<and>
   InitializeOne_ref Vp r (CHR ''w'') Mp s g = InitializeOne_ref Vp r (CHR ''W'') Mp s g \<and>
   InitializeOne_ref Vp r (CHR ''h'') Mp s g = InitializeOne_ref Vp r (CHR ''H'') Mp s g \<and>
   InitializeOne V r (CHR ''w'') g =
     Inr (drawn (n_rows V) r (InitializeOne_W_avgV V r) g,
          advance (unat (n_rows V) * unat r) g) \<and>
   InitializeOne V r (CHR ''W'') g' =
     Inr (drawn (n_rows V) r (InitializeOne_W_avgV V r) g',
          advance (unat (n_rows V) * unat r) g') \<and>
   InitializeOne V r (CHR ''h'') g =
     Inr (drawn r (n_cols V) (InitializeOne_H_avgV V r) g,
          advance (unat r * unat (n_cols V)) g) \<and>
   InitializeOne V r (CHR ''H'') g' =
     Inr (drawn r (n_cols V) (InitializeOne_H_avgV V r) g',
          advance (unat r * unat (n_cols V)) g')"
  by (simp add: InitializeOne_W_drawn InitializeOne_H_drawn InitializeOne_ref_def)

text \<open>
  C8. For every \<open>V\<close> and \<open>r\<close> there is one seed, fixed by \<open>V\<close> and \<open>r\<close> alone, that every
  call uses whatever the state of the random source: each output is the next samples
  plus that seed. The class has no data member, so there is no other state to read.
\<close>

theorem seed_depends_on_V_and_r_only:
  "\<exists>a. a = Initialize_avgV V r \<and> a = InitializeOne_W_avgV V r \<and>
       a = InitializeOne_H_avgV V r \<and>
     (\<forall>g.
        Initialize V r g =
          Inr (drawn (n_rows V) r a g,
               drawn r (n_cols V) a (advance (unat (n_rows V) * unat r) g),
               advance (unat r * unat (n_cols V)) (advance (unat (n_rows V) * unat r) g)) \<and>
        InitializeOne V r (CHR ''W'') g =
          Inr (drawn (n_rows V) r a g, advance (unat (n_rows V) * unat r) g) \<and>
        InitializeOne V r (CHR ''H'') g =
          Inr (drawn r (n_cols V) a g, advance (unat r * unat (n_cols V)) g))"
  by (rule exI [of _ "spec_seed V r"])
    (simp add: Initialize_drawn InitializeOne_W_drawn InitializeOne_H_drawn
      Initialize_avgV_spec InitializeOne_W_avgV_spec InitializeOne_H_avgV_spec)

subsection \<open>The objects of the caller\<close>

lemma Initialize_ref_result:
  "Initialize_ref Vp r Wp Hp s g =
     Inr (let a = Initialize_avgV (s Vp) r;
              g1 = advance (unat (n_rows (s Vp)) * unat r) g;
              s1 = s(Wp := fst (randu (n_rows (s Vp)) r g));
              s2 = s1(Hp := fst (randu r (n_cols (s Vp)) g1));
              s3 = s2(Wp := mat_plus (s2 Wp) a)
          in s3(Hp := mat_plus (s3 Hp) a),
          advance (unat r * unat (n_cols (s Vp))) (advance (unat (n_rows (s Vp)) * unat r) g))"
  by (simp add: Initialize_ref_def randu_def advance_def Let_def)

lemma mat_plus_randu: "mat_plus (fst (randu rows cols g)) a = drawn rows cols a g"
  by (simp add: randu_def mat_plus_def drawn_def Let_def comp_def)

lemma Initialize_ref_distinct:
  assumes "Vp \<noteq> Wp" and "Vp \<noteq> Hp" and "Wp \<noteq> Hp"
  shows "Initialize_ref Vp r Wp Hp s g =
           Inr (s(Wp := drawn (n_rows (s Vp)) r (Initialize_avgV (s Vp) r) g,
                  Hp := drawn r (n_cols (s Vp)) (Initialize_avgV (s Vp) r)
                          (advance (unat (n_rows (s Vp)) * unat r) g)),
                advance (unat r * unat (n_cols (s Vp)))
                  (advance (unat (n_rows (s Vp)) * unat r) g))"
  using assms
  by (auto simp add: Initialize_ref_result Let_def mat_plus_randu fun_upd_def)

lemma InitializeOne_ref_result:
  "InitializeOne_ref Vp r c Mp s g =
     (if c = CHR ''W'' \<or> c = CHR ''w'' then
        Inr (s(Mp := drawn (n_rows (s Vp)) r (InitializeOne_W_avgV (s Vp) r) g),
             advance (unat (n_rows (s Vp)) * unat r) g)
      else if c = CHR ''H'' \<or> c = CHR ''h'' then
        Inr (s(Mp := drawn r (n_cols (s Vp)) (InitializeOne_H_avgV (s Vp) r) g),
             advance (unat r * unat (n_cols (s Vp))) g)
      else Inl (Fatal fatal_message, s, g))"
  by (simp add: InitializeOne_ref_def randu_def mat_plus_def drawn_def advance_def Let_def
      comp_def)

text \<open>
  On three different objects the call on the store leaves in \<open>W\<close> and \<open>H\<close> what
  \<open>Initialize\<close> returns, and likewise for \<open>InitializeOne\<close> on any two objects.
\<close>

lemma Initialize_ref_agrees:
  assumes "Vp \<noteq> Wp" and "Vp \<noteq> Hp" and "Wp \<noteq> Hp"
    and "Initialize (s Vp) r g = Inr (W, H, g')"
  shows "Initialize_ref Vp r Wp Hp s g = Inr (s(Wp := W, Hp := H), g')"
  using assms by (simp add: Initialize_ref_distinct Initialize_drawn)

lemma InitializeOne_ref_agrees:
  assumes "InitializeOne (s Vp) r c g = Inr (M, g')"
  shows "InitializeOne_ref Vp r c Mp s g = Inr (s(Mp := M), g')"
  using assms
  by (auto simp add: InitializeOne_ref_result InitializeOne_def randu_def mat_plus_def
      drawn_def advance_def Let_def comp_def split: if_splits)

text \<open>
  \<^verbatim>\<open>InitializeOne\<close> on a store, with \<open>V\<close> and \<open>M\<close> two objects: either the fatal log, or
  \<open>V\<close> and every object other than \<open>M\<close> are kept and \<open>M\<close> does not depend on what it held.
\<close>

lemma InitializeOne_ref_frame:
  assumes "Vp \<noteq> Mp"
  shows "InitializeOne_ref Vp r c Mp s g = Inl (Fatal fatal_message, s, g) \<or>
         (\<exists>s' g'. InitializeOne_ref Vp r c Mp s g = Inr (s', g') \<and>
            s' Vp = s Vp \<and>
            (\<forall>a. a \<noteq> Mp \<longrightarrow> s' a = s a) \<and>
            (\<forall>t. t Vp = s Vp \<longrightarrow>
               (\<exists>t'. InitializeOne_ref Vp r c Mp t g = Inr (t', g') \<and> t' Mp = s' Mp)))"
  using assms by (simp add: InitializeOne_ref_result)

text \<open>
  C9, as the code has it. For every call of \<^verbatim>\<open>Initialize\<close> in which \<open>V\<close> is not the same
  object as \<open>W\<close> or \<open>H\<close>, the call leaves \<open>V\<close> and every object other than \<open>W\<close> and \<open>H\<close>
  as they were, and what it leaves in \<open>W\<close> and \<open>H\<close> does not depend on what they held
  before: a store that differs from the first anywhere but at \<open>V\<close> gives the same \<open>W\<close>
  and \<open>H\<close>. When \<open>W\<close> and \<open>H\<close> are two objects they get the shapes \<open>n \<times> r\<close> and
  \<open>r \<times> m\<close>.
\<close>

theorem input_kept_when_not_aliased:
  assumes "Vp \<noteq> Wp" and "Vp \<noteq> Hp"
  shows "\<exists>s' g'. Initialize_ref Vp r Wp Hp s g = Inr (s', g') \<and>
           s' Vp = s Vp \<and>
           (\<forall>a. a \<noteq> Wp \<and> a \<noteq> Hp \<longrightarrow> s' a = s a) \<and>
           (Wp \<noteq> Hp \<longrightarrow> has_shape (s' Wp) (n_rows (s Vp)) r \<and>
                        has_shape (s' Hp) r (n_cols (s Vp))) \<and>
           (\<forall>t. t Vp = s Vp \<longrightarrow>
              (\<exists>t'. Initialize_ref Vp r Wp Hp t g = Inr (t', g') \<and>
                 t' Wp = s' Wp \<and> t' Hp = s' Hp))"
proof (cases "Wp = Hp")
  case True
  with assms show ?thesis
    by (simp add: Initialize_ref_result Let_def)
next
  case False
  with assms show ?thesis
    by (simp add: Initialize_ref_distinct has_shape_drawn)
qed

text \<open>
  The dense scenario at address 0, the outputs at addresses 1 and 2: \<open>V\<close> is kept, and
  \<open>W\<close> is the same whether it held the dense or the sparse scenario before.
\<close>

theorem input_kept_when_not_aliased_witness:
  "(0 :: nat) \<noteq> 1 \<and> (0 :: nat) \<noteq> 2 \<and>
   obj_after 0 (Initialize_ref 0 2 1 2 (const_store scenario_dense) half_rng) =
     Some scenario_dense \<and>
   obj_after 1 (Initialize_ref 0 2 1 2 ((const_store scenario_dense)(1 := scenario_sparse))
      half_rng) =
     obj_after 1 (Initialize_ref 0 2 1 2 (const_store scenario_dense) half_rng)"
proof -
  let ?s = "const_store scenario_dense"
  let ?t = "?s(1 := scenario_sparse)"
  obtain s' g' where run: "Initialize_ref 0 2 1 2 ?s half_rng = Inr (s', g')"
    and kept: "s' 0 = ?s 0"
    and free: "\<forall>t. t 0 = ?s 0 \<longrightarrow>
      (\<exists>t'. Initialize_ref 0 2 1 2 t half_rng = Inr (t', g') \<and> t' 1 = s' 1 \<and> t' 2 = s' 2)"
    using input_kept_when_not_aliased [of 0 1 2 2 ?s half_rng] by auto
  have "?t 0 = ?s 0"
    by simp
  with free obtain t' where "Initialize_ref 0 2 1 2 ?t half_rng = Inr (t', g')"
    and "t' 1 = s' 1"
    by blast
  with run kept show ?thesis
    by (simp add: obj_after_def const_store_def)
qed

text \<open>
  C9 as the spec words it, for every call, fails when \<open>W\<close> is the object of \<open>V\<close>, which
  the types allow for a dense \<open>V\<close>: the dense scenario at address 0 passed as both \<open>V\<close>
  and \<open>W\<close>, with \<open>r = 2\<close>. After the call the object holds the samples plus the seed
  \<open>sqrt (3 / 2)\<close>.
\<close>

theorem aliased_input_counterexample:
  "const_store scenario_dense 0 = scenario_dense \<and>
   obj_after 0 (Initialize_ref 0 2 0 1 (const_store scenario_dense) half_rng) =
     Some \<lparr>n_rows = 2, n_cols = 2,
           elems = [Fin (1 / 2 + sqrt (3 / 2)), Fin (1 / 2 + sqrt (3 / 2)),
                    Fin (1 / 2 + sqrt (3 / 2)), Fin (1 / 2 + sqrt (3 / 2))]\<rparr> \<and>
   obj_after 0 (Initialize_ref 0 2 0 1 (const_store scenario_dense) half_rng) \<noteq>
     Some scenario_dense"
proof -
  have "0 \<le> sqrt (3 / 2 :: real)"
    by simp
  then have "1 / 2 + sqrt (3 / 2 :: real) \<noteq> 0"
    by linarith
  then show ?thesis
    by (simp add: obj_after_def Initialize_ref_def Initialize_avgV_def randu_def mat_plus_def
        half_rng_def const_draws_def const_store_def of_size_def dsub_def DBL_MAX_def upt_rec
        scenario_dense_def)
qed

subsection \<open>A sparse matrix with no stored element\<close>

lemma below_zero_over_count: "0 < d \<Longrightarrow> dsqrt (ddiv (Fin (- d)) (Fin (real k))) = NaN"
  by (cases "k = 0") (simp_all add: divide_neg_pos)

lemma below_zero_over_size: "0 < d \<Longrightarrow> dsqrt (ddiv (Fin (- d)) (of_size r)) = NaN"
  by (simp only: of_size_def below_zero_over_count)

text \<open>
  C10. For every sparse \<open>V\<close> with \<open>n \<ge> 1\<close> rows and \<open>m \<ge> 1\<close> columns and no stored element,
  the loop visits nothing: the sum stays 0 and \<open>min\<close> stays \<^verbatim>\<open>DBL_MAX\<close>, the seed is
  \<open>sqrt ((0 - DBL_MAX) / r)\<close>, a NaN, the call returns normally, and every entry of \<open>W\<close>
  and \<open>H\<close> is NaN.
\<close>

theorem no_stored_element_gives_nan:
  assumes "1 \<le> n_rows V" and "1 \<le> n_cols V" and "elems V = []"
  shows "spec_sum V = Fin 0 \<and> spec_min V = DBL_MAX \<and>
         Initialize_avgV V r = dsqrt (ddiv (dsub (Fin 0) DBL_MAX) (of_size r)) \<and>
         Initialize_avgV V r = NaN \<and>
         Initialize V r g =
           Inr (\<lparr>n_rows = n_rows V, n_cols = r,
                  elems = replicate (unat (n_rows V) * unat r) NaN\<rparr>,
                \<lparr>n_rows = r, n_cols = n_cols V,
                  elems = replicate (unat r * unat (n_cols V)) NaN\<rparr>,
                advance (unat r * unat (n_cols V)) (advance (unat (n_rows V) * unat r) g))"
proof -
  obtain d where d: "DBL_MAX = Fin d" "0 < d"
    using DBL_MAX_Fin by blast
  have sum: "spec_sum V = Fin 0" and low: "spec_min V = DBL_MAX"
    using assms(3) by (simp_all add: spec_sum_def spec_min_def)
  have formula: "dsqrt (ddiv (dsub (Fin 0) DBL_MAX) (of_size r)) = NaN"
    by (simp add: dsub_def d below_zero_over_size)
  have "spec_mean V = Fin 0 \<or> spec_mean V = NaN"
    by (simp add: spec_mean_def sum of_size_def)
  then have "spec_seed V r = NaN"
    by (auto simp add: spec_seed_def spec_radicand_def low dsub_def d below_zero_over_size)
  then show ?thesis
    using sum low formula
    by (simp add: Initialize_drawn Initialize_avgV_spec drawn_NaN)
qed

theorem no_stored_element_gives_nan_witness:
  "(1 :: size_t) \<le> 3 \<and> elems \<lparr>n_rows = 3, n_cols = 3, elems = []\<rparr> = [] \<and>
   spec_min \<lparr>n_rows = 3, n_cols = 3, elems = []\<rparr> = DBL_MAX \<and>
   dsqrt (ddiv (dsub (Fin 0) DBL_MAX) (of_size 2)) = NaN \<and>
   Initialize_avgV \<lparr>n_rows = 3, n_cols = 3, elems = []\<rparr> 2 = NaN \<and>
   Initialize \<lparr>n_rows = 3, n_cols = 3, elems = []\<rparr> 2 half_rng =
     Inr (\<lparr>n_rows = 3, n_cols = 2, elems = [NaN, NaN, NaN, NaN, NaN, NaN]\<rparr>,
          \<lparr>n_rows = 2, n_cols = 3, elems = [NaN, NaN, NaN, NaN, NaN, NaN]\<rparr>,
          \<lparr>draws = const_draws (1 / 2), pos = 12\<rparr>)"
proof -
  have six: "replicate 6 NaN = [NaN, NaN, NaN, NaN, NaN, NaN]"
    by (simp add: eval_nat_numeral)
  show ?thesis
    using no_stored_element_gives_nan
      [of "\<lparr>n_rows = 3, n_cols = 3, elems = []\<rparr>" 2 half_rng] six
    by (auto simp add: half_rng_def advance_def)
qed

end
